theory Spec2Isabelle
  imports Main
begin

section \<open>Data model of \<open>fetch_stocks.py\<close>\<close>

text \<open>
  A pandas DataFrame as the script uses it: a DatetimeIndex (one timezone for the whole
  index, or none), a list of column labels, and one list of cells per row. A timestamp is
  an integer count of nanoseconds: the wall-clock reading when the index is naive, the
  instant since the epoch when it is timezone-aware. A cell is \<open>None\<close> for NaN.
\<close>

datatype tzinfo = UTC | Zone string

record ('c, 'v) frame =
  tz :: "tzinfo option"
  columns :: "'c list"
  rows :: "(int \<times> 'v option list) list"

definition index :: "('c, 'v) frame \<Rightarrow> int list" where
  "index df = map fst (rows df)"

text \<open>\<open>DataFrame.empty\<close>: true when either axis has length zero.\<close>

definition df_empty :: "('c, 'v) frame \<Rightarrow> bool" where
  "df_empty df = (rows df = [] \<or> columns df = [])"


text \<open>\<open>pd.DataFrame()\<close>\<close>

definition DataFrame :: "('c, 'v) frame" where
  "DataFrame = \<lparr>tz = None, columns = [], rows = []\<rparr>"

subsection \<open>Duplicate masks and boolean selection\<close>

text \<open>\<open>Index.has_duplicates\<close>\<close>

definition has_duplicates :: "'a list \<Rightarrow> bool" where
  "has_duplicates xs = (\<not> distinct xs)"

text \<open>\<open>Index.duplicated(keep='last')\<close>: an entry is marked when the same label occurs later.\<close>

fun duplicated_last :: "'a list \<Rightarrow> bool list" where
  "duplicated_last [] = []"
| "duplicated_last (x # xs) = (x \<in> set xs) # duplicated_last xs"

text \<open>\<open>Index.duplicated()\<close> (keep='first'): an entry is marked when the label occurred before.\<close>

fun duplicated_from :: "'a list \<Rightarrow> 'a list \<Rightarrow> bool list" where
  "duplicated_from seen [] = []"
| "duplicated_from seen (x # xs) = (x \<in> set seen) # duplicated_from (x # seen) xs"

definition duplicated :: "'a list \<Rightarrow> bool list" where
  "duplicated xs = duplicated_from [] xs"

text \<open>Selection with the negated mask, \<open>xs[~mask]\<close>.\<close>

fun select_not :: "bool list \<Rightarrow> 'a list \<Rightarrow> 'a list" where
  "select_not (m # ms) (x # xs) = (if m then select_not ms xs else x # select_not ms xs)"
| "select_not _ _ = []"

text \<open>\<open>df[~df.index.duplicated(keep='last')]\<close>\<close>

definition drop_index_duplicates :: "('c, 'v) frame \<Rightarrow> ('c, 'v) frame" where
  "drop_index_duplicates df = df\<lparr>rows := select_not (duplicated_last (index df)) (rows df)\<rparr>"

text \<open>\<open>df.loc[:, ~df.columns.duplicated()]\<close>\<close>

definition drop_column_duplicates :: "('c, 'v) frame \<Rightarrow> ('c, 'v) frame" where
  "drop_column_duplicates df =
     (let mask = duplicated (columns df)
      in df\<lparr>columns := select_not mask (columns df),
            rows := map (\<lambda>(t, vs). (t, select_not mask vs)) (rows df)\<rparr>)"

text \<open>
  The cleaning block that the script repeats for the stored and for the fetched table
  (lines 54-57, 89-92, 120-123, 150-153).
\<close>

definition clean :: "('c, 'v) frame \<Rightarrow> ('c, 'v) frame" where
  "clean df =
     (let df1 = (if has_duplicates (index df) then drop_index_duplicates df else df)
      in if has_duplicates (columns df1) then drop_column_duplicates df1 else df1)"

subsection \<open>Timezone alignment and concatenation\<close>

datatype exn = DownloadError | ParserError | LocalizeError | OSError

text \<open>
  \<open>DatetimeIndex.tz_localize(zone)\<close> on a naive index: every wall-clock reading is
  reinterpreted in the zone. The zone database is a parameter \<open>loc\<close>; it yields no instant
  for a reading that is ambiguous or does not exist in the zone, and pandas raises then.
\<close>

fun localize_rows ::
  "(int \<Rightarrow> int option) \<Rightarrow> (int \<times> 'a) list \<Rightarrow> (int \<times> 'a) list option" where
  "localize_rows loc [] = Some []"
| "localize_rows loc ((t, vs) # rs) =
     (case loc t of
        None \<Rightarrow> None
      | Some u \<Rightarrow> (case localize_rows loc rs of
                     None \<Rightarrow> None
                   | Some rs' \<Rightarrow> Some ((u, vs) # rs')))"

definition tz_localize_index ::
  "(tzinfo \<Rightarrow> int \<Rightarrow> int option) \<Rightarrow> tzinfo \<Rightarrow> ('c, 'v) frame \<Rightarrow> exn + ('c, 'v) frame" where
  "tz_localize_index loc z df =
     (case localize_rows (loc z) (rows df) of
        None \<Rightarrow> Inl LocalizeError
      | Some rs \<Rightarrow> Inr (df\<lparr>tz := Some z, rows := rs\<rparr>))"

text \<open>The "Align timezones" block, lines 96-100 and 127-131.\<close>

definition align_timezones ::
  "(tzinfo \<Rightarrow> int \<Rightarrow> int option) \<Rightarrow> ('c, 'v) frame \<Rightarrow> ('c, 'v) frame \<Rightarrow>
   exn + (('c, 'v) frame \<times> ('c, 'v) frame)" where
  "align_timezones loc existing_df new_data =
     (if \<not> df_empty existing_df then
        (case (tz existing_df, tz new_data) of
           (None, Some z) \<Rightarrow>
             (case tz_localize_index loc z existing_df of
                Inl e \<Rightarrow> Inl e
              | Inr existing' \<Rightarrow> Inr (existing', new_data))
         | (Some z, None) \<Rightarrow>
             (case tz_localize_index loc z new_data of
                Inl e \<Rightarrow> Inl e
              | Inr new' \<Rightarrow> Inr (existing_df, new'))
         | _ \<Rightarrow> Inr (existing_df, new_data))
      else Inr (existing_df, new_data))"

text \<open>
  Re-indexing a row to another list of columns: the cell of a column that the row does
  not have is NaN.
\<close>

definition reindex :: "'c list \<Rightarrow> 'c list \<Rightarrow> 'v option list \<Rightarrow> 'v option list" where
  "reindex src dst vs =
     map (\<lambda>c. case map_of (zip src vs) c of None \<Rightarrow> None | Some v \<Rightarrow> v) dst"

text \<open>
  \<open>pd.concat([a, b])\<close>: the rows of \<open>a\<close> followed by those of \<open>b\<close>, over the union of the
  columns in order of first appearance. Both tables reach this call with the same
  timezone-awareness; when two aware indexes name different zones the instants are kept
  and the result is labelled UTC.
\<close>

definition concat_frames :: "('c, 'v) frame \<Rightarrow> ('c, 'v) frame \<Rightarrow> ('c, 'v) frame" where
  "concat_frames a b =
     (let cs = columns a @ filter (\<lambda>c. c \<notin> set (columns a)) (columns b)
      in \<lparr>tz = (if tz a = tz b then tz a else Some UTC),
          columns = cs,
          rows = map (\<lambda>(t, vs). (t, reindex (columns a) cs vs)) (rows a) @
                 map (\<lambda>(t, vs). (t, reindex (columns b) cs vs)) (rows b)\<rparr>)"

text \<open>
  Lines 102-103 and 133-134: \<open>combined = pd.concat([existing_df, new_data])\<close>, then
  \<open>combined[~combined.index.duplicated(keep='last')]\<close>.
\<close>

definition combine :: "('c, 'v) frame \<Rightarrow> ('c, 'v) frame \<Rightarrow> ('c, 'v) frame" where
  "combine existing_df new_data = drop_index_duplicates (concat_frames existing_df new_data)"

text \<open>
  Reconciliation of the stored table with a fetched one, as both update branches do it:
  clean the fetched table, align the timezones, concatenate, drop the earlier of two rows
  with one timestamp.
\<close>

definition reconcile ::
  "(tzinfo \<Rightarrow> int \<Rightarrow> int option) \<Rightarrow> ('c, 'v) frame \<Rightarrow> ('c, 'v) frame \<Rightarrow> exn + ('c, 'v) frame" where
  "reconcile loc existing_df new_data =
     (case align_timezones loc existing_df (clean new_data) of
        Inl e \<Rightarrow> Inl e
      | Inr (existing', new') \<Rightarrow> Inr (combine existing' new'))"

section \<open>The world outside the script\<close>

text \<open>
  What a CSV file holds is what \<open>pd.read_csv(csv_file, index_col=0, parse_dates=True)\<close>
  makes of it: a table, or an exception when the file cannot be parsed.
\<close>

datatype 'v stored = Unreadable | Table "(string, 'v) frame"

text \<open>The two ways the script calls \<open>yf.download\<close>: with \<open>start=\<close> or with \<open>period=\<close>.\<close>

datatype query = Start int "tzinfo option" | Period string

text \<open>The answer of \<open>yf.download\<close>; its columns may be a two-level MultiIndex.\<close>

datatype 'v response =
    Flat "(string, 'v) frame"
  | MultiIndex "(string \<times> string, 'v) frame"

text \<open>The four \<open>print\<close> calls of \<open>fetch_and_update\<close> (lines 64, 106, 137, 166).\<close>

datatype message =
    ErrorReading string exn
  | ConcatFailed string string exn
  | DebugConcatFailed string string exn
  | FailedToFetch string string exn

text \<open>
  The state the script acts on: the CSV files, the directories, the lines printed so far,
  and the calls made so far to \<open>yf.download\<close> and to \<open>to_csv\<close>.
\<close>

record 'v world =
  files :: "string \<Rightarrow> 'v stored option"
  dirs :: "string list"
  stdout :: "message list"
  requests :: "(string \<times> query \<times> string) list"
  writes :: "string list"

text \<open>
  How a write to a path goes wrong: the file cannot be opened (permission denied), or the
  write stops after some rows (disk full).
\<close>

datatype write_fault = OpenFails | FailsAfter nat

text \<open>
  Everything the script takes from its environment: the provider, the clock
  (\<open>datetime.now(tz)\<close>: the local wall clock for \<open>None\<close>, the instant otherwise), the zone
  database behind \<open>tz_localize\<close>, the faults of the file system, and \<open>os.getcwd()\<close>.
\<close>

record 'v env =
  yf_download :: "string \<Rightarrow> query \<Rightarrow> string \<Rightarrow> exn + 'v response"
  now :: "tzinfo option \<Rightarrow> int"
  tz_database :: "tzinfo \<Rightarrow> int \<Rightarrow> int option"
  write_fault :: "string \<Rightarrow> write_fault option"
  makedirs_fails :: "string \<Rightarrow> bool"
  getcwd :: string

definition print :: "message \<Rightarrow> 'v world \<Rightarrow> 'v world" where
  "print m w = w\<lparr>stdout := stdout w @ [m]\<rparr>"

text \<open>\<open>os.path.exists\<close> on a CSV path\<close>

definition path_exists :: "'v world \<Rightarrow> string \<Rightarrow> bool" where
  "path_exists w p = (files w p \<noteq> None)"

definition read_csv :: "'v world \<Rightarrow> string \<Rightarrow> exn + (string, 'v) frame" where
  "read_csv w p =
     (case files w p of
        Some (Table df) \<Rightarrow> Inr df
      | _ \<Rightarrow> Inl ParserError)"

text \<open>
  \<open>df.to_csv(csv_file)\<close> opens the target path itself for writing and writes the rows to
  it. A statement returns the exception it raised, if any, and the world it left.
\<close>

definition to_csv ::
  "'v env \<Rightarrow> (string, 'v) frame \<Rightarrow> string \<Rightarrow> 'v world \<Rightarrow> exn option \<times> 'v world" where
  "to_csv env df csv_file w =
     (case write_fault env csv_file of
        None \<Rightarrow>
          (None, w\<lparr>files := (files w)(csv_file \<mapsto> Table df),
                   writes := writes w @ [csv_file]\<rparr>)
      | Some OpenFails \<Rightarrow> (Some OSError, w\<lparr>writes := writes w @ [csv_file]\<rparr>)
      | Some (FailsAfter k) \<Rightarrow>
          (Some OSError,
           w\<lparr>files := (files w)(csv_file \<mapsto> Table (df\<lparr>rows := take k (rows df)\<rparr>)),
             writes := writes w @ [csv_file]\<rparr>))"

definition download ::
  "'v env \<Rightarrow> string \<Rightarrow> query \<Rightarrow> string \<Rightarrow> 'v world \<Rightarrow> (exn + 'v response) \<times> 'v world" where
  "download env symbol q interval w =
     (yf_download env symbol q interval,
      w\<lparr>requests := requests w @ [(symbol, q, interval)]\<rparr>)"

text \<open>
  \<open>if isinstance(data.columns, pd.MultiIndex): data.columns = data.columns.droplevel(1)\<close>
\<close>

fun droplevel :: "'v response \<Rightarrow> (string, 'v) frame" where
  "droplevel (Flat df) = df"
| "droplevel (MultiIndex df) = \<lparr>tz = tz df, columns = map fst (columns df), rows = rows df\<rparr>"

section \<open>The script\<close>





definition path_join :: "string \<Rightarrow> string \<Rightarrow> string" where
  "path_join a b = a @ ''/'' @ b"

text \<open>\<open>timedelta(days=n)\<close> in nanoseconds\<close>

definition timedelta_days :: "int \<Rightarrow> int" where
  "timedelta_days n = n * 86400000000000"

text \<open>
  Lines 51-66: load the stored table, clean it and read its last timestamp. A file that
  cannot be read is reported and treated like an empty one. The test \<open>if last_date:\<close> of
  line 68 holds for every timestamp, so \<open>Some\<close> stands for the true branch.
\<close>

definition load_existing ::
  "string \<Rightarrow> 'v world \<Rightarrow> (int option \<times> (string, 'v) frame) \<times> 'v world" where
  "load_existing csv_file w =
     (case read_csv w csv_file of
        Inr df \<Rightarrow>
          (let existing_df = clean df
           in if df_empty existing_df then ((None, existing_df), w)
              else ((Some (last (index existing_df)), existing_df), w))
      | Inl e \<Rightarrow> ((None, DataFrame), print (ErrorReading csv_file e) w))"

text \<open>
  Lines 95-106 and 125-137: the inner \<open>try\<close> around alignment, concatenation and the write;
  its handler prints and swallows the exception. The cleaning of the fetched table
  (lines 89-92, 120-123) is the first step of \<open>reconcile\<close>.
\<close>

definition merge_and_save ::
  "'v env \<Rightarrow> (exn \<Rightarrow> message) \<Rightarrow> (string, 'v) frame \<Rightarrow> (string, 'v) frame \<Rightarrow> string \<Rightarrow>
   'v world \<Rightarrow> exn option \<times> 'v world" where
  "merge_and_save env report existing_df new_data csv_file w =
     (case reconcile (tz_database env) existing_df new_data of
        Inl e_concat \<Rightarrow> (None, print (report e_concat) w)
      | Inr combined \<Rightarrow>
          (case to_csv env combined csv_file w of
             (Some e_concat, w') \<Rightarrow> (None, print (report e_concat) w')
           | (None, w') \<Rightarrow> (None, w')))"

text \<open>Lines 78-106: a daily or coarser interval with a stored last date.\<close>

definition update_daily ::
  "'v env \<Rightarrow> string \<Rightarrow> string \<Rightarrow> string \<Rightarrow> (string, 'v) frame \<Rightarrow> int \<Rightarrow>
   'v world \<Rightarrow> exn option \<times> 'v world" where
  "update_daily env symbol_ns interval csv_file existing_df last_date w =
     (let start_date = last_date + timedelta_days 1
      in if start_date < now env (tz existing_df) then
           (case download env symbol_ns (Start start_date (tz existing_df)) interval w of
              (Inl e, w') \<Rightarrow> (Some e, w')
            | (Inr r, w') \<Rightarrow>
                (let new_data = droplevel r
                 in if \<not> df_empty new_data
                    then merge_and_save env (ConcatFailed symbol_ns interval)
                           existing_df new_data csv_file w'
                    else (None, w')))
         else (None, w))"

text \<open>Lines 107-140: an intraday interval with a stored last date.\<close>

definition update_intraday ::
  "'v env \<Rightarrow> string \<Rightarrow> string \<Rightarrow> string \<Rightarrow> string \<Rightarrow> (string, 'v) frame \<Rightarrow>
   'v world \<Rightarrow> exn option \<times> 'v world" where
  "update_intraday env symbol_ns interval max_period csv_file existing_df w =
     (case download env symbol_ns (Period max_period) interval w of
        (Inl e, w') \<Rightarrow> (Some e, w')
      | (Inr r, w') \<Rightarrow>
          (let new_data = droplevel r
           in if \<not> df_empty new_data
              then merge_and_save env (DebugConcatFailed symbol_ns interval)
                     existing_df new_data csv_file w'
              else (None, w')))"

text \<open>Lines 142-154: the file exists but is empty or invalid.\<close>

definition refetch_full ::
  "'v env \<Rightarrow> string \<Rightarrow> string \<Rightarrow> string \<Rightarrow> string \<Rightarrow> 'v world \<Rightarrow> exn option \<times> 'v world" where
  "refetch_full env symbol_ns interval max_period csv_file w =
     (case download env symbol_ns (Period max_period) interval w of
        (Inl e, w') \<Rightarrow> (Some e, w')
      | (Inr r, w') \<Rightarrow>
          (let data = droplevel r
           in if \<not> df_empty data then to_csv env (clean data) csv_file w'
              else (None, w')))"

text \<open>Lines 156-163: the file does not exist.\<close>

definition first_fetch ::
  "'v env \<Rightarrow> string \<Rightarrow> string \<Rightarrow> string \<Rightarrow> string \<Rightarrow> 'v world \<Rightarrow> exn option \<times> 'v world" where
  "first_fetch env symbol_ns interval max_period csv_file w =
     (case download env symbol_ns (Period max_period) interval w of
        (Inl e, w') \<Rightarrow> (Some e, w')
      | (Inr r, w') \<Rightarrow>
          (let data = droplevel r
           in if \<not> df_empty data then to_csv env data csv_file w'
              else (None, w')))"

text \<open>The body of the outer \<open>try\<close>, lines 49-163.\<close>

definition sync_body ::
  "'v env \<Rightarrow> string \<Rightarrow> string \<Rightarrow> string \<Rightarrow> string \<Rightarrow> 'v world \<Rightarrow> exn option \<times> 'v world" where
  "sync_body env symbol_ns interval max_period csv_file w =
     (if path_exists w csv_file then
        (case load_existing csv_file w of
           ((Some last_date, existing_df), w1) \<Rightarrow>
             (if interval \<in> set [''1d'', ''5d'', ''1wk'', ''1mo'', ''3mo'']
              then update_daily env symbol_ns interval csv_file existing_df last_date w1
              else update_intraday env symbol_ns interval max_period csv_file existing_df w1)
         | ((None, existing_df), w1) \<Rightarrow>
             refetch_full env symbol_ns interval max_period csv_file w1)
      else first_fetch env symbol_ns interval max_period csv_file w)"

definition csv_path :: "string \<Rightarrow> string \<Rightarrow> string \<Rightarrow> string" where
  "csv_path company_dir ticker_symbol interval =
     path_join company_dir (ticker_symbol @ ''_'' @ interval @ ''.csv'')"

text \<open>
  One pass of the \<open>for\<close> loop, lines 46-167: the task for one (symbol, interval) pair. The
  outer handler prints whatever the body raised and passes.
\<close>

definition sync_interval ::
  "'v env \<Rightarrow> string \<Rightarrow> string \<Rightarrow> string \<times> string \<Rightarrow> 'v world \<Rightarrow> exn option \<times> 'v world" where
  "sync_interval env ticker_symbol company_dir item w =
     (let interval = fst item; max_period = snd item;
          symbol_ns = ticker_symbol @ ''.NS'';
          csv_file = csv_path company_dir ticker_symbol interval
      in case sync_body env symbol_ns interval max_period csv_file w of
           (Some e, w') \<Rightarrow> (None, print (FailedToFetch symbol_ns interval e) w')
         | (None, w') \<Rightarrow> (None, w'))"

text \<open>A \<open>for\<close> loop: an exception that leaves the body ends the loop.\<close>

fun for_each ::
  "('a \<Rightarrow> 'w \<Rightarrow> exn option \<times> 'w) \<Rightarrow> 'a list \<Rightarrow> 'w \<Rightarrow> exn option \<times> 'w" where
  "for_each body [] w = (None, w)"
| "for_each body (x # xs) w =
     (case body x w of
        (Some e, w') \<Rightarrow> (Some e, w')
      | (None, w') \<Rightarrow> for_each body xs w')"





section \<open>Notions used in the statements\<close>

text \<open>
  What the mask selection of \<open>duplicated(keep='last')\<close> computes, written as one recursion:
  a row stays when no later row has its key.
\<close>

fun keep_last :: "('a \<Rightarrow> 'k) \<Rightarrow> 'a list \<Rightarrow> 'a list" where
  "keep_last f [] = []"
| "keep_last f (x # xs) = (if f x \<in> f ` set xs then keep_last f xs else x # keep_last f xs)"


text \<open>Outcome of each branch when the provider raises on every query.\<close>

definition fetch_failed ::
  "'v env \<Rightarrow> string \<Rightarrow> string \<Rightarrow> 'v world \<Rightarrow> exn option \<times> 'v world \<Rightarrow> bool" where
  "fetch_failed env s i w r =
     (\<exists>q e. yf_download env s q i = Inl e \<and> r = (Some e, w\<lparr>requests := requests w @ [(s, q, i)]\<rparr>))"

section \<open>Concrete scenarios\<close>

definition fixed_offsets :: "tzinfo \<Rightarrow> int \<Rightarrow> int option" where
  "fixed_offsets z t =
     (case z of
        UTC \<Rightarrow> Some t
      | Zone name \<Rightarrow> if name = ''Asia/Kolkata'' then Some (t - 19800000000000) else None)"

definition stored_123 :: "(string, int) frame" where
  "stored_123 = \<lparr>tz = None, columns = [''Close''],
                 rows = [(1, [Some 100]), (2, [Some 200]), (3, [Some 300])]\<rparr>"

definition fetched_24 :: "(string, int) frame" where
  "fetched_24 = \<lparr>tz = None, columns = [''Close''], rows = [(2, [Some 205]), (4, [Some 400])]\<rparr>"

definition merged_1324 :: "(string, int) frame" where
  "merged_1324 = \<lparr>tz = None, columns = [''Close''],
                  rows = [(1, [Some 100]), (3, [Some 300]), (2, [Some 205]), (4, [Some 400])]\<rparr>"

definition answers :: "'v response \<Rightarrow> string \<Rightarrow> query \<Rightarrow> string \<Rightarrow> exn + 'v response" where
  "answers r symbol q interval = Inr r"

definition rate_limited :: "string \<Rightarrow> query \<Rightarrow> string \<Rightarrow> exn + int response" where
  "rate_limited symbol q interval = Inl DownloadError"

definition no_fault :: "string \<Rightarrow> write_fault option" where
  "no_fault p = None"

definition disk_full_after :: "nat \<Rightarrow> string \<Rightarrow> write_fault option" where
  "disk_full_after k p = Some (FailsAfter k)"

definition permission_denied :: "string \<Rightarrow> write_fault option" where
  "permission_denied p = Some OpenFails"

definition clock_at :: "int \<Rightarrow> tzinfo option \<Rightarrow> int" where
  "clock_at t z = t"

definition makedirs_succeeds :: "string \<Rightarrow> bool" where
  "makedirs_succeeds d = False"

definition scenario_env ::
  "(string \<Rightarrow> query \<Rightarrow> string \<Rightarrow> exn + int response) \<Rightarrow> int \<Rightarrow>
   (string \<Rightarrow> write_fault option) \<Rightarrow> int env" where
  "scenario_env provider t faults =
     \<lparr>yf_download = provider, now = clock_at t, tz_database = fixed_offsets,
      write_fault = faults, makedirs_fails = makedirs_succeeds, getcwd = ''/data''\<rparr>"

definition no_files :: "string \<Rightarrow> int stored option" where
  "no_files p = None"

definition world_of :: "(string \<Rightarrow> int stored option) \<Rightarrow> int world" where
  "world_of fs = \<lparr>files = fs, dirs = [], stdout = [], requests = [], writes = []\<rparr>"

definition tcs_1m :: string where
  "tcs_1m = ''/data/Tata/TCS_1m.csv''"

definition tcs_1d :: string where
  "tcs_1d = ''/data/Tata/TCS_1d.csv''"

definition twice_1 :: "(string, int) frame" where
  "twice_1 = \<lparr>tz = None, columns = [''Close''], rows = [(1, [Some 100]), (1, [Some 105])]\<rparr>"

definition torn_1 :: "(string, int) frame" where
  "torn_1 = \<lparr>tz = None, columns = [''Close''], rows = [(1, [Some 100])]\<rparr>"

definition stored_12 :: "(string, int) frame" where
  "stored_12 = \<lparr>tz = None, columns = [''Close''], rows = [(1, [Some 100]), (2, [Some 200])]\<rparr>"

definition fetched_23 :: "(string, int) frame" where
  "fetched_23 = \<lparr>tz = None, columns = [''Close''], rows = [(2, [Some 205]), (3, [Some 300])]\<rparr>"

definition merged_123 :: "(string, int) frame" where
  "merged_123 = \<lparr>tz = None, columns = [''Close''],
                 rows = [(1, [Some 100]), (2, [Some 205]), (3, [Some 300])]\<rparr>"

definition kolkata :: tzinfo where
  "kolkata = Zone ''Asia/Kolkata''"

definition fetched_ist :: "(string, int) frame" where
  "fetched_ist = \<lparr>tz = Some kolkata, columns = [''Close''],
                  rows = [(2 - 19800000000000, [Some 205]), (86400000000000, [Some 300])]\<rparr>"

definition stored_12_ist :: "(string, int) frame" where
  "stored_12_ist = \<lparr>tz = Some kolkata, columns = [''Close''],
                    rows = [(1 - 19800000000000, [Some 100]), (2 - 19800000000000, [Some 200])]\<rparr>"

definition merged_ist :: "(string, int) frame" where
  "merged_ist = \<lparr>tz = Some kolkata, columns = [''Close''],
                 rows = [(1 - 19800000000000, [Some 100]), (2 - 19800000000000, [Some 205]),
                         (86400000000000, [Some 300])]\<rparr>"

definition header_only :: "(string, int) frame" where
  "header_only = \<lparr>tz = None, columns = [''Close''], rows = []\<rparr>"

definition fetched_next_day :: "(string, int) frame" where
  "fetched_next_day = \<lparr>tz = None, columns = [''Close''], rows = [(86400000000003, [Some 310])]\<rparr>"

definition merged_next_day :: "(string, int) frame" where
  "merged_next_day = \<lparr>tz = None, columns = [''Close''],
     rows = [(1, [Some 100]), (2, [Some 200]), (3, [Some 300]), (86400000000003, [Some 310])]\<rparr>"

definition once_1 :: "(string, int) frame" where
  "once_1 = \<lparr>tz = None, columns = [''Close''], rows = [(1, [Some 105])]\<rparr>"

section \<open>Lemmas on masks, selection and concatenation\<close>

lemma select_not_duplicated_last:
  "select_not (duplicated_last (map f xs)) xs = keep_last f xs"
  by (induction xs) auto

lemma set_keep_last_keys: "f ` set (keep_last f xs) = f ` set xs"
  by (induction xs) auto

lemma set_keep_last_subset: "set (keep_last f xs) \<subseteq> set xs"
  by (induction xs) auto

lemma distinct_keep_last: "distinct (map f (keep_last f xs))"
proof (induction xs)
  case Nil show ?case by simp
next
  case (Cons x xs)
  have "f x \<notin> f ` set xs \<Longrightarrow> f x \<notin> f ` set (keep_last f xs)"
    by (simp add: set_keep_last_keys)
  with Cons show ?case by auto
qed

lemma keep_last_distinct: "distinct (map f xs) \<Longrightarrow> keep_last f xs = xs"
  by (induction xs) auto

lemma keep_last_append:
  "keep_last f (xs @ ys) =
     filter (\<lambda>r. f r \<notin> f ` set ys) (keep_last f xs) @ keep_last f ys"
  by (induction xs) (auto simp: image_Un)


lemma sorted_keep_last:
  "sorted (map f xs) \<Longrightarrow> sorted (map f (keep_last f xs))"
proof (induction xs)
  case Nil show ?case by simp
next
  case (Cons x xs)
  have "set (keep_last f xs) \<subseteq> set xs" by (rule set_keep_last_subset)
  with Cons show ?case by auto
qed


lemma rows_drop_index_duplicates:
  "rows (drop_index_duplicates df) = keep_last fst (rows df)"
  by (simp add: drop_index_duplicates_def index_def select_not_duplicated_last)

lemma index_combine_distinct: "distinct (index (combine a b))"
  by (simp add: combine_def index_def rows_drop_index_duplicates distinct_keep_last)








lemma keep_last_keys_cong:
  "map f xs = map g ys \<Longrightarrow> map f (keep_last f xs) = map g (keep_last g ys)"
proof (induction xs arbitrary: ys)
  case Nil then show ?case by simp
next
  case (Cons x xs)
  then obtain y ys' where ys: "ys = y # ys'" and xy: "f x = g y" and r: "map f xs = map g ys'"
    by (cases ys) auto
  from r have img: "f ` set xs = g ` set ys'" by (metis set_map)
  have ih: "map f (keep_last f xs) = map g (keep_last g ys')" by (rule Cons.IH [OF r])
  show ?case
  proof (cases "f x \<in> f ` set xs")
    case True
    with img xy have "g y \<in> g ` set ys'" by simp
    then have "keep_last g (y # ys') = keep_last g ys'" by simp
    moreover from True have "keep_last f (x # xs) = keep_last f xs" by simp
    ultimately show ?thesis unfolding ys by (simp only: ih)
  next
    case False
    with img xy have "g y \<notin> g ` set ys'" by simp
    then have "keep_last g (y # ys') = y # keep_last g ys'" by simp
    moreover from False have "keep_last f (x # xs) = x # keep_last f xs" by simp
    ultimately show ?thesis unfolding ys by (simp only: list.map ih xy)
  qed
qed

lemma index_combine: "index (combine a b) = map fst (keep_last fst (rows a @ rows b))"
proof -
  have "map fst (rows (concat_frames a b)) = map fst (rows a @ rows b)"
    by (simp add: concat_frames_def Let_def split_beta o_def)
  then have "map fst (keep_last fst (rows (concat_frames a b))) =
               map fst (keep_last fst (rows a @ rows b))"
    by (rule keep_last_keys_cong)
  then show ?thesis
    by (simp only: index_def combine_def rows_drop_index_duplicates)
qed

lemma sorted_index_combine:
  assumes "sorted (index a)" and "sorted (index b)"
      and gap: "\<forall>t\<in>set (index a). \<forall>u\<in>set (index b). t \<notin> set (index b) \<longrightarrow> t < u"
  shows "sorted (index (combine a b))"
proof -
  let ?keep = "filter (\<lambda>r. fst r \<notin> fst ` set (rows b)) (keep_last fst (rows a))"
  have a: "sorted (map fst (keep_last fst (rows a)))"
    using assms(1) by (simp add: index_def sorted_keep_last)
  have b: "sorted (map fst (keep_last fst (rows b)))"
    using assms(2) by (simp add: index_def sorted_keep_last)
  have sa: "set (keep_last fst (rows a)) \<subseteq> set (rows a)" by (rule set_keep_last_subset)
  have sb: "set (keep_last fst (rows b)) \<subseteq> set (rows b)" by (rule set_keep_last_subset)
  have "sorted_wrt (\<lambda>x y. fst x \<le> fst y) (keep_last fst (rows a))"
    using a by (simp only: sorted_wrt_map)
  then have "sorted_wrt (\<lambda>x y. fst x \<le> fst y) ?keep"
    by (rule sorted_wrt_filter)
  then have keep: "sorted (map fst ?keep)"
    by (simp only: sorted_wrt_map)
  have cross: "fst x \<le> fst y" if x: "x \<in> set ?keep" and y: "y \<in> set (keep_last fst (rows b))" for x y
  proof -
    from x sa have "fst x \<in> set (index a)" and "fst x \<notin> set (index b)"
      by (auto simp: index_def)
    moreover from y sb have "fst y \<in> set (index b)" by (auto simp: index_def)
    ultimately have "fst x < fst y" using gap by blast
    then show ?thesis by simp
  qed
  have "sorted (map fst ?keep @ map fst (keep_last fst (rows b)))"
    unfolding sorted_append using keep b cross by auto
  then show ?thesis
    by (simp only: index_combine keep_last_append map_append)
qed









lemma localize_rows_cells:
  "localize_rows loc rs = Some rs' \<Longrightarrow> map snd rs' = map snd rs"
  by (induction loc rs arbitrary: rs' rule: localize_rows.induct)
     (auto split: option.splits)

lemma localize_rows_index:
  "localize_rows loc rs = Some rs' \<Longrightarrow> map Some (map fst rs') = map loc (map fst rs)"
  by (induction loc rs arbitrary: rs' rule: localize_rows.induct)
     (auto split: option.splits)




lemma reconcileE:
  assumes "reconcile loc a b = Inr r"
  obtains a' b' where "align_timezones loc a (clean b) = Inr (a', b')" and "r = combine a' b'"
  using assms by (auto simp: reconcile_def split: sum.splits)

lemma align_timezones_nonempty_cases:
  assumes "align_timezones loc a b = Inr (a', b')" and "\<not> df_empty a"
  obtains (same) "tz a = None \<longleftrightarrow> tz b = None" and "a' = a" and "b' = b"
    | (left) z where "tz a = None" and "tz b = Some z"
        and "tz_localize_index loc z a = Inr a'" and "b' = b"
    | (right) z where "tz a = Some z" and "tz b = None"
        and "tz_localize_index loc z b = Inr b'" and "a' = a"
  using assms by (auto simp: align_timezones_def split: if_splits option.splits sum.splits)

lemma tz_localize_index_fields:
  assumes "tz_localize_index loc z df = Inr df'"
  shows "tz df' = Some z" and "columns df' = columns df"
    and "map Some (index df') = map (loc z) (index df)"
    and "map snd (rows df') = map snd (rows df)"
proof -
  from assms obtain rs where rs: "localize_rows (loc z) (rows df) = Some rs"
    and df': "df' = df\<lparr>tz := Some z, rows := rs\<rparr>"
    by (auto simp: tz_localize_index_def split: option.splits)
  show "tz df' = Some z" and "columns df' = columns df" by (simp_all add: df')
  show "map Some (index df') = map (loc z) (index df)"
    using localize_rows_index [OF rs] by (simp add: index_def df')
  show "map snd (rows df') = map snd (rows df)"
    using localize_rows_cells [OF rs] by (simp add: df')
qed


section \<open>Lemmas on the task\<close>

lemma print_fields [simp]:
  "files (print m w) = files w" "requests (print m w) = requests w"
  "dirs (print m w) = dirs w" "stdout (print m w) = stdout w @ [m]"
  "writes (print m w) = writes w"
  by (simp_all add: print_def)




lemma download_eq:
  "download env s q i w = (yf_download env s q i, w\<lparr>requests := requests w @ [(s, q, i)]\<rparr>)"
  by (simp add: download_def)

lemma load_existing_keeps:
  "files (snd (load_existing p w)) = files w"
  "requests (snd (load_existing p w)) = requests w"
  by (auto simp: load_existing_def Let_def split: sum.splits)

lemma sync_interval_no_raise: "fst (sync_interval env t d item w) = None"
  by (simp add: sync_interval_def Let_def split: prod.splits option.splits)


lemma update_daily_fetch_fails:
  assumes "\<forall>q. isl (yf_download env s q i)"
  shows "update_daily env s i p ex ld w = (None, w) \<or>
         fetch_failed env s i w (update_daily env s i p ex ld w)"
proof -
  let ?q = "Start (ld + timedelta_days 1) (tz ex)"
  from assms obtain e where "yf_download env s ?q i = Inl e"
    by (metis sum.collapse(1))
  then show ?thesis
    by (auto simp: update_daily_def Let_def download_eq fetch_failed_def)
qed

lemma period_fetch_fails:
  assumes "\<forall>q. isl (yf_download env s q i)"
  shows "fetch_failed env s i w (update_intraday env s i per p ex w)"
    and "fetch_failed env s i w (refetch_full env s i per p w)"
    and "fetch_failed env s i w (first_fetch env s i per p w)"
proof -
  from assms obtain e where "yf_download env s (Period per) i = Inl e"
    by (metis sum.collapse(1))
  then show "fetch_failed env s i w (update_intraday env s i per p ex w)"
    and "fetch_failed env s i w (refetch_full env s i per p w)"
    and "fetch_failed env s i w (first_fetch env s i per p w)"
    by (auto simp: update_intraday_def refetch_full_def first_fetch_def download_eq fetch_failed_def)
qed

lemma sync_body_fetch_fails:
  assumes "\<forall>q. isl (yf_download env s q i)"
  shows "\<exists>w1. files w1 = files w \<and> requests w1 = requests w \<and>
           (sync_body env s i per p w = (None, w1) \<or>
            fetch_failed env s i w1 (sync_body env s i per p w))"
proof (cases "path_exists w p")
  case False
  with period_fetch_fails(3) [OF assms] show ?thesis
    by (auto simp: sync_body_def)
next
  case True
  obtain ld ex w1 where l: "load_existing p w = ((ld, ex), w1)"
    by (metis surj_pair)
  then have k: "files w1 = files w" "requests w1 = requests w"
    using load_existing_keeps [of p w] by simp_all
  show ?thesis
  proof (cases ld)
    case None
    with True l k period_fetch_fails(2) [OF assms] show ?thesis
      by (auto simp: sync_body_def)
  next
    case (Some d)
    with True l k period_fetch_fails(1) [OF assms] update_daily_fetch_fails [OF assms]
    show ?thesis
      by (simp add: sync_body_def) blast
  qed
qed

section \<open>Unfolding sets for concrete runs\<close>

lemmas scen = scenario_env_def answers_def rate_limited_def no_fault_def disk_full_after_def
  permission_denied_def clock_at_def makedirs_succeeds_def no_files_def world_of_def tcs_1m_def tcs_1d_def
lemmas run = sync_interval_def sync_body_def first_fetch_def refetch_full_def update_daily_def
  update_intraday_def merge_and_save_def load_existing_def read_csv_def download_def to_csv_def
  path_exists_def csv_path_def path_join_def print_def timedelta_days_def
lemmas eval_defs = reconcile_def align_timezones_def clean_def has_duplicates_def combine_def
  concat_frames_def drop_index_duplicates_def drop_column_duplicates_def duplicated_def
  reindex_def index_def df_empty_def tz_localize_index_def Let_def fixed_offsets_def



lemma index_drop_column_duplicates: "index (drop_column_duplicates d) = index d"
  by (simp add: drop_column_duplicates_def Let_def index_def split_beta o_def)

lemma index_clean: "index (clean df) = map fst (keep_last fst (rows df))"
proof -
  have "index (if has_duplicates (index df) then drop_index_duplicates df else df) =
          map fst (keep_last fst (rows df))"
    by (simp add: has_duplicates_def index_def rows_drop_index_duplicates keep_last_distinct)
  then show ?thesis by (simp add: clean_def Let_def index_drop_column_duplicates)
qed

lemma distinct_index_clean: "distinct (index (clean df))"
  by (simp add: index_clean distinct_keep_last)






lemma download_keeps_writes:
  "writes (snd (download env s q i w)) = writes w"
  "stdout (snd (download env s q i w)) = stdout w"
  by (simp_all add: download_def)








lemmas frames = stored_123_def fetched_24_def merged_1324_def torn_1_def stored_12_def
  fetched_23_def merged_123_def kolkata_def fetched_ist_def stored_12_ist_def merged_ist_def
  header_only_def twice_1_def fetched_next_day_def
  merged_next_day_def once_1_def

section \<open>The claims\<close>



text \<open>
  C3, as the code has it: the reconciled table never repeats a timestamp. It is not
  sorted by the script: the stored rows that survive come first and the fetched rows
  follow. So it is ascending when both tables are ascending and every stored timestamp
  that the fetched table lacks lies before all fetched timestamps.
\<close>

theorem reconcile_distinct_sorted_if_ordered:
  assumes "reconcile loc existing_df new_data = Inr combined"
      and "align_timezones loc existing_df (clean new_data) = Inr (existing', new')"
  shows "distinct (index combined) \<and>
         (sorted (index existing') \<and> sorted (index new') \<and>
          (\<forall>t\<in>set (index existing'). \<forall>u\<in>set (index new'). t \<notin> set (index new') \<longrightarrow> t < u)
          \<longrightarrow> sorted (index combined))"
proof -
  from assms have "combined = combine existing' new'" by (simp add: reconcile_def)
  then show ?thesis by (simp add: index_combine_distinct sorted_index_combine)
qed

theorem reconcile_distinct_sorted_witness:
  "reconcile fixed_offsets stored_12 fetched_23 = Inr merged_123 \<and>
   distinct (index merged_123) \<and> sorted (index merged_123)"
proof -
  have r: "reconcile fixed_offsets stored_12 fetched_23 = Inr merged_123"
    by (simp add: eval_defs frames)
  have a: "align_timezones fixed_offsets stored_12 (clean fetched_23) = Inr (stored_12, fetched_23)"
    by (simp add: eval_defs frames)
  show ?thesis
    using r reconcile_distinct_sorted_if_ordered [OF r a]
    by (simp add: index_def frames)
qed

text \<open>
  C3 as stated, with "sorted" for every pair of inputs, fails. The order is lost: stored 1, 2, 3 and fetched 2, 4 (both
  ascending) reconcile to 1, 3, 2, 4.
\<close>

theorem reconcile_unsorted_counterexample:
  "reconcile fixed_offsets stored_123 fetched_24 = Inr merged_1324 \<and>
   sorted (index stored_123) \<and> distinct (index stored_123) \<and>
   sorted (index fetched_24) \<and> distinct (index fetched_24) \<and>
   \<not> sorted (index merged_1324)"
  by (simp add: eval_defs frames)



text \<open>
  C5: timezone alignment inside reconciliation. The stored table is not empty whenever
  the script reconciles (line 68). If the stored index is naive and the fetched one is
  aware, the stored timestamps are localized to the fetched zone and the fetched table is
  untouched; if the stored index is aware and the fetched one is naive, the fetched
  timestamps are localized to the stored zone and the stored table is untouched; if both
  are aware, neither table changes. The merged table is built from the aligned pair.
\<close>

theorem reconcile_localizes_naive_side:
  assumes "\<not> df_empty existing_df"
      and "reconcile loc existing_df new_data = Inr combined"
  shows "\<exists>existing' new'.
           combined = combine existing' new' \<and>
           (\<forall>z. tz existing_df = None \<and> tz (clean new_data) = Some z \<longrightarrow>
                new' = clean new_data \<and> tz existing' = Some z \<and>
                map Some (index existing') = map (loc z) (index existing_df) \<and>
                map snd (rows existing') = map snd (rows existing_df)) \<and>
           (\<forall>z. tz existing_df = Some z \<and> tz (clean new_data) = None \<longrightarrow>
                existing' = existing_df \<and> tz new' = Some z \<and>
                map Some (index new') = map (loc z) (index (clean new_data)) \<and>
                map snd (rows new') = map snd (rows (clean new_data))) \<and>
           (tz existing_df \<noteq> None \<and> tz (clean new_data) \<noteq> None \<longrightarrow>
                existing' = existing_df \<and> new' = clean new_data)"
proof -
  from assms(2) obtain a' b' where al: "align_timezones loc existing_df (clean new_data) = Inr (a', b')"
    and comb: "combined = combine a' b'"
    by (rule reconcileE)
  from al assms(1)
  have "(\<forall>z. tz existing_df = None \<and> tz (clean new_data) = Some z \<longrightarrow>
                b' = clean new_data \<and> tz a' = Some z \<and>
                map Some (index a') = map (loc z) (index existing_df) \<and>
                map snd (rows a') = map snd (rows existing_df)) \<and>
        (\<forall>z. tz existing_df = Some z \<and> tz (clean new_data) = None \<longrightarrow>
                a' = existing_df \<and> tz b' = Some z \<and>
                map Some (index b') = map (loc z) (index (clean new_data)) \<and>
                map snd (rows b') = map snd (rows (clean new_data))) \<and>
        (tz existing_df \<noteq> None \<and> tz (clean new_data) \<noteq> None \<longrightarrow>
                a' = existing_df \<and> b' = clean new_data)"
  proof (cases rule: align_timezones_nonempty_cases)
    case same
    then show ?thesis by auto
  next
    case (left z)
    with tz_localize_index_fields [OF left(3)] show ?thesis by auto
  next
    case (right z)
    with tz_localize_index_fields [OF right(3)] show ?thesis by auto
  qed
  with comb show ?thesis by blast
qed

theorem reconcile_localizes_witness:
  "\<not> df_empty stored_12 \<and>
   reconcile fixed_offsets stored_12 fetched_ist = Inr merged_ist \<and>
   merged_ist = combine stored_12_ist fetched_ist \<and>
   map Some (index stored_12_ist) = map (fixed_offsets kolkata) (index stored_12)"
proof -
  have n: "\<not> df_empty stored_12" by (simp add: df_empty_def frames)
  have r: "reconcile fixed_offsets stored_12 fetched_ist = Inr merged_ist"
    by (simp add: eval_defs frames)
  show ?thesis
    using n r reconcile_localizes_naive_side [OF n r]
    by (simp add: eval_defs frames)
qed






text \<open>
  C1 asks that no persisted archive holds two Bars with one timestamp after a run of the
  task. The first-fetch branch writes the provider's answer as it came: with no file on
  disk and an answer that repeats timestamp 1, the file written holds both rows. The
  branch for a file that exists but is empty (lines 142-154) cleans the same answer
  before writing.
\<close>

theorem first_fetch_keeps_duplicate_timestamps:
  "files (snd (sync_interval (scenario_env (answers (Flat twice_1)) 0 no_fault)
                 ''TCS'' ''/data/Tata'' (''1d'', ''max'') (world_of no_files))) tcs_1d
     = Some (Table twice_1) \<and>
   \<not> distinct (index twice_1)"
  by (simp add: scen run eval_defs twice_1_def)

text \<open>
  C6: a provider failure. If \<open>yf.download\<close> raises for this symbol and interval, the task
  raises nothing, leaves every file as it was, prints a "Failed to fetch" line whenever
  it did call the provider, and the loop goes on with the remaining intervals.
\<close>

theorem fetch_failure_leaves_archive:
  assumes "\<forall>q. isl (yf_download env (ticker_symbol @ ''.NS'') q interval)"
  shows "fst (sync_interval env ticker_symbol company_dir (interval, max_period) w) = None \<and>
         files (snd (sync_interval env ticker_symbol company_dir (interval, max_period) w)) = files w \<and>
         (requests (snd (sync_interval env ticker_symbol company_dir (interval, max_period) w))
            \<noteq> requests w \<longrightarrow>
          (\<exists>e. FailedToFetch (ticker_symbol @ ''.NS'') interval e
                 \<in> set (stdout (snd (sync_interval env ticker_symbol company_dir
                                        (interval, max_period) w))))) \<and>
         for_each (sync_interval env ticker_symbol company_dir) ((interval, max_period) # rest) w =
           for_each (sync_interval env ticker_symbol company_dir) rest
             (snd (sync_interval env ticker_symbol company_dir (interval, max_period) w))"
proof -
  let ?s = "ticker_symbol @ ''.NS''"
  let ?p = "csv_path company_dir ticker_symbol interval"
  let ?r = "sync_interval env ticker_symbol company_dir (interval, max_period) w"
  have none: "fst ?r = None" by (rule sync_interval_no_raise)
  then have loop: "for_each (sync_interval env ticker_symbol company_dir) ((interval, max_period) # rest) w =
           for_each (sync_interval env ticker_symbol company_dir) rest (snd ?r)"
    by (cases ?r) simp
  from sync_body_fetch_fails [OF assms, of w max_period ?p]
  obtain w1 where k: "files w1 = files w" "requests w1 = requests w"
    and b: "sync_body env ?s interval max_period ?p w = (None, w1) \<or>
            fetch_failed env ?s interval w1 (sync_body env ?s interval max_period ?p w)"
    by blast
  from b have "files (snd ?r) = files w \<and>
         (requests (snd ?r) \<noteq> requests w \<longrightarrow>
          (\<exists>e. FailedToFetch ?s interval e \<in> set (stdout (snd ?r))))"
  proof
    assume "sync_body env ?s interval max_period ?p w = (None, w1)"
    with k show ?thesis by (simp add: sync_interval_def Let_def)
  next
    assume "fetch_failed env ?s interval w1 (sync_body env ?s interval max_period ?p w)"
    then obtain q e where "sync_body env ?s interval max_period ?p w =
        (Some e, w1\<lparr>requests := requests w1 @ [(?s, q, interval)]\<rparr>)"
      by (auto simp: fetch_failed_def)
    with k show ?thesis by (auto simp: sync_interval_def Let_def)
  qed
  with none loop show ?thesis by blast
qed

theorem fetch_failure_witness:
  "fst (sync_interval (scenario_env rate_limited 0 no_fault) ''TCS'' ''/data/Tata''
          (''1m'', ''7d'') (world_of (no_files(tcs_1m \<mapsto> Table stored_123)))) = None \<and>
   files (snd (sync_interval (scenario_env rate_limited 0 no_fault) ''TCS'' ''/data/Tata''
          (''1m'', ''7d'') (world_of (no_files(tcs_1m \<mapsto> Table stored_123))))) tcs_1m
     = Some (Table stored_123) \<and>
   stdout (snd (sync_interval (scenario_env rate_limited 0 no_fault) ''TCS'' ''/data/Tata''
          (''1m'', ''7d'') (world_of (no_files(tcs_1m \<mapsto> Table stored_123)))))
     = [FailedToFetch ''TCS.NS'' ''1m'' DownloadError]"
proof -
  have h: "\<forall>q. isl (yf_download (scenario_env rate_limited 0 no_fault) (''TCS'' @ ''.NS'') q ''1m'')"
    by (simp add: scen)
  show ?thesis
    using fetch_failure_leaves_archive [OF h, of "''/data/Tata''" "''7d''"
        "world_of (no_files(tcs_1m \<mapsto> Table stored_123))" "[]"]
    by (simp add: scen run eval_defs stored_123_def)
qed







end
